theory Spec2Isabelle
  imports Main
begin

section \<open>The exception layer of the cairo binding (src/cairo/error.c)\<close>

text \<open>
  The file translates the status codes of the native graphics library into exceptions of
  the host interpreter and defines the exception type \<open>cairo.Error\<close>, whose instances
  carry a \<open>status\<close> field next to the argument tuple of every exception.

  The embedding is shallow. A C function that reads or writes the interpreter takes the
  interpreter state and returns the new one. A pointer is an \<open>option\<close>: \<open>None\<close> is
  \<open>NULL\<close>. Where the C reads through a \<open>NULL\<close> pointer its behaviour is undefined;
  such a function returns an \<open>option\<close> too, and \<open>None\<close> is the undefined run.
  Reference counts are not part of the model: \<open>Py_INCREF\<close> and \<open>Py_DECREF\<close> of an
  object leave every value of the model as it is, and only their reading of the pointer
  is kept.
\<close>

subsection \<open>Status codes of the native library\<close>

text \<open>
  \<open>cairo_status_t\<close> is an enumeration of \<open>cairo.h\<close>. The file names six of its
  enumerators; every other one is \<open>CAIRO_STATUS_OTHER\<close> with its number.
\<close>

datatype cairo_status_t =
    CAIRO_STATUS_SUCCESS
  | CAIRO_STATUS_NO_MEMORY
  | CAIRO_STATUS_INVALID_RESTORE
  | CAIRO_STATUS_INVALID_POP_GROUP
  | CAIRO_STATUS_READ_ERROR
  | CAIRO_STATUS_WRITE_ERROR
  | CAIRO_STATUS_OTHER nat

subsection \<open>Types and objects of the host interpreter\<close>

text \<open>
  The exception types the file mentions, and the types it makes at run time: a
  \<open>HeapType name a b\<close> is the result of \<open>type(name, (a, b), {})\<close>.
\<close>

datatype pytype =
    PyExc_BaseException
  | PyExc_Exception
  | PyExc_MemoryError
  | PyExc_IOError
  | PyExc_TypeError
  | PyExc_SystemError
  | PycairoError_Type
  | HeapType string pytype pytype

text \<open>
  The base classes of a type. The built-in exceptions derive from \<open>Exception\<close>;
  \<open>error_get_type\<close> sets the base of \<open>cairo.Error\<close> to \<open>Exception\<close> before the
  type is made ready (line 240).
\<close>

fun tp_bases :: "pytype \<Rightarrow> pytype list" where
  "tp_bases PyExc_BaseException = []"
| "tp_bases PyExc_Exception = [PyExc_BaseException]"
| "tp_bases PyExc_MemoryError = [PyExc_Exception]"
| "tp_bases PyExc_IOError = [PyExc_Exception]"
| "tp_bases PyExc_TypeError = [PyExc_Exception]"
| "tp_bases PyExc_SystemError = [PyExc_Exception]"
| "tp_bases PycairoError_Type = [PyExc_Exception]"
| "tp_bases (HeapType name a b) = [a, b]"

text \<open>A type, followed by everything it inherits from.\<close>

fun supertypes :: "pytype \<Rightarrow> pytype list" where
  "supertypes PyExc_BaseException = [PyExc_BaseException]"
| "supertypes PyExc_Exception = [PyExc_Exception, PyExc_BaseException]"
| "supertypes PyExc_MemoryError = [PyExc_MemoryError, PyExc_Exception, PyExc_BaseException]"
| "supertypes PyExc_IOError = [PyExc_IOError, PyExc_Exception, PyExc_BaseException]"
| "supertypes PyExc_TypeError = [PyExc_TypeError, PyExc_Exception, PyExc_BaseException]"
| "supertypes PyExc_SystemError = [PyExc_SystemError, PyExc_Exception, PyExc_BaseException]"
| "supertypes PycairoError_Type = [PycairoError_Type, PyExc_Exception, PyExc_BaseException]"
| "supertypes (HeapType name a b) = HeapType name a b # supertypes a @ supertypes b"

definition PyType_IsSubtype :: "pytype \<Rightarrow> pytype \<Rightarrow> bool" where
  "PyType_IsSubtype a b = (b \<in> set (supertypes a))"

text \<open>
  The objects that are passed around as \<open>PyObject *\<close>, exception instances apart.
  \<open>IntEnum name status\<close> is the member of the integer enumeration \<open>name\<close> that wraps
  a status code.
\<close>

datatype pyobject =
    Py_None
  | PyLong int
  | PyUnicode string
  | IntEnum string cairo_status_t
  | PyTuple "pyobject list"
  | PyDict "(pyobject \<times> pyobject) list"
  | PyType pytype

text \<open>
  An exception instance. \<open>PyBaseExceptionObject\<close> is the layout of the interpreter's
  own exceptions; \<open>PycairoErrorObject\<close> (lines 96 to 99) puts the \<open>status\<close> pointer
  behind it.
\<close>

record PyBaseExceptionObject =
  ob_type :: pytype
  args :: "pyobject list"

record PycairoErrorObject =
  base :: PyBaseExceptionObject
  status :: "pyobject option"

datatype exception =
    Plain PyBaseExceptionObject
  | Structured PycairoErrorObject

fun Py_TYPE :: "exception \<Rightarrow> pytype" where
  "Py_TYPE (Plain e) = ob_type e"
| "Py_TYPE (Structured e) = ob_type (base e)"

definition PyObject_IsInstance :: "exception \<Rightarrow> pytype \<Rightarrow> bool" where
  "PyObject_IsInstance e t = PyType_IsSubtype (Py_TYPE e) t"

subsection \<open>The state of the interpreter\<close>

text \<open>
  \<open>curexc\<close> is the error indicator of the running thread: the pending exception, if any.
  The interpreter can run out of memory: \<open>requests\<close> counts the allocation requests
  made so far and \<open>oom\<close> tells which requests are refused.
\<close>

record pystate =
  curexc :: "exception option"
  requests :: nat
  oom :: "nat \<Rightarrow> bool"

definition PyErr_Occurred :: "pystate \<Rightarrow> exception option" where
  "PyErr_Occurred s = curexc s"

definition PyErr_SetObject :: "pytype \<Rightarrow> exception \<Rightarrow> pystate \<Rightarrow> pystate" where
  "PyErr_SetObject t v s = s\<lparr>curexc := Some v\<rparr>"

definition PyErr_NoMemory :: "pystate \<Rightarrow> pystate" where
  "PyErr_NoMemory s = s\<lparr>curexc := Some (Plain \<lparr>ob_type = PyExc_MemoryError, args = []\<rparr>)\<rparr>"

text \<open>One allocation request: whether it is granted, and the state after it.\<close>

definition allocate :: "pystate \<Rightarrow> bool \<times> pystate" where
  "allocate s = (\<not> oom s (requests s), s\<lparr>requests := Suc (requests s)\<rparr>)"

text \<open>
  \<open>PyErr_SetString\<close> returns nothing to its caller. It first makes the message
  object, one allocation request: when that is granted the indicator afterwards holds an
  instance of the type whose only argument is the message, and when it is refused the
  indicator holds the memory error of the refusal.
\<close>

definition PyErr_SetString :: "pytype \<Rightarrow> string \<Rightarrow> pystate \<Rightarrow> pystate" where
  "PyErr_SetString t msg s =
     (case allocate s of
        (True, s1) \<Rightarrow> s1\<lparr>curexc := Some (Plain \<lparr>ob_type = t, args = [PyUnicode msg]\<rparr>)\<rparr>
      | (False, s1) \<Rightarrow> PyErr_NoMemory s1)"

text \<open>
  \<open>Py_DECREF\<close> and \<open>Py_INCREF\<close> read the object they are given: on \<open>NULL\<close> the
  behaviour is undefined.
\<close>

definition Py_DECREF :: "'a option \<Rightarrow> unit option" where
  "Py_DECREF p = (case p of None \<Rightarrow> None | Some _ \<Rightarrow> Some ())"

definition Py_INCREF :: "'a option \<Rightarrow> unit option" where
  "Py_INCREF p = (case p of None \<Rightarrow> None | Some _ \<Rightarrow> Some ())"

definition PyDict_New :: "pystate \<Rightarrow> pyobject option \<times> pystate" where
  "PyDict_New s =
     (case allocate s of
        (True, s1) \<Rightarrow> (Some (PyDict []), s1)
      | (False, s1) \<Rightarrow> (None, PyErr_NoMemory s1))"

text \<open>
  \<open>Py_BuildValue\<close> with the two formats the file uses. An \<open>O\<close> item that is \<open>NULL\<close>
  makes the call return \<open>NULL\<close>; it raises \<open>SystemError\<close> unless an exception is
  already pending.
\<close>

definition null_item :: "pystate \<Rightarrow> pystate" where
  "null_item s =
     (if curexc s = None
      then PyErr_SetString PyExc_SystemError ''NULL object passed to Py_BuildValue'' s
      else s)"

definition Py_BuildValue_sO :: "string \<Rightarrow> pyobject option \<Rightarrow> pystate \<Rightarrow> pyobject option \<times> pystate" where
  "Py_BuildValue_sO str ob s =
     (case allocate s of
        (False, s1) \<Rightarrow> (None, PyErr_NoMemory s1)
      | (True, s1) \<Rightarrow>
          (case ob of
             None \<Rightarrow> (None, null_item s1)
           | Some v \<Rightarrow> (Some (PyTuple [PyUnicode str, v]), s1)))"

definition Py_BuildValue_s_OO_O ::
  "string \<Rightarrow> pyobject option \<Rightarrow> pyobject option \<Rightarrow> pyobject option \<Rightarrow> pystate
     \<Rightarrow> pyobject option \<times> pystate" where
  "Py_BuildValue_s_OO_O str a b c s =
     (case allocate s of
        (False, s1) \<Rightarrow> (None, PyErr_NoMemory s1)
      | (True, s1) \<Rightarrow>
          (case (a, b, c) of
             (Some x, Some y, Some z) \<Rightarrow> (Some (PyTuple [PyUnicode str, PyTuple [x, y], z]), s1)
           | _ \<Rightarrow> (None, null_item s1)))"

text \<open>
  \<open>PyType_Type.tp_new\<close>, the constructor of types, on the argument tuple
  \<open>(name, (a, b), dict)\<close>. Of the ways it can refuse, running out of memory and an
  argument tuple of another shape are modelled.
\<close>

definition PyType_Type_tp_new :: "pyobject \<Rightarrow> pystate \<Rightarrow> pyobject option \<times> pystate" where
  "PyType_Type_tp_new targs s =
     (case targs of
        PyTuple [PyUnicode name, PyTuple [PyType a, PyType b], PyDict d] \<Rightarrow>
          (case allocate s of
             (True, s1) \<Rightarrow> (Some (PyType (HeapType name a b)), s1)
           | (False, s1) \<Rightarrow> (None, PyErr_NoMemory s1))
      | _ \<Rightarrow> (None, PyErr_SetString PyExc_TypeError ''type() argument'' s))"

text \<open>
  Modelled from the spec: \<open>CREATE_INT_ENUM\<close> is a macro of \<open>private.h\<close>, which is
  not among the sources. It wraps a status code as a member of the named integer
  enumeration, a new object; like every call that makes an object it returns \<open>NULL\<close>,
  with an exception raised, when the interpreter refuses the memory.
\<close>

definition CREATE_INT_ENUM :: "string \<Rightarrow> cairo_status_t \<Rightarrow> pystate \<Rightarrow> pyobject option \<times> pystate" where
  "CREATE_INT_ENUM name st s =
     (case allocate s of
        (True, s1) \<Rightarrow> (Some (IntEnum name st), s1)
      | (False, s1) \<Rightarrow> (None, PyErr_NoMemory s1))"

text \<open>
  Modelled from the spec: \<open>_Pycairo_Get_Error\<close> is declared in \<open>private.h\<close>, which is
  not among the sources. It gives the library's own exception type.
\<close>

definition Pycairo_Get_Error :: "pyobject option" where
  "Pycairo_Get_Error = Some (PyType PycairoError_Type)"

subsection \<open>Describing a status code (lines 42 to 51)\<close>

text \<open>
  \<open>cairo_status_to_string\<close> belongs to the native library; every function that
  calls it takes it as its first argument. The C parameter \<open>status\<close> is written
  \<open>st\<close>, since \<open>status\<close> is the field of the exception object.
\<close>

definition status_to_string :: "(cairo_status_t \<Rightarrow> string) \<Rightarrow> cairo_status_t \<Rightarrow> string" where
  "status_to_string cairo_status_to_string st =
     (if st = CAIRO_STATUS_INVALID_RESTORE
      then ''Context.restore() without matching Context.save()''
      else if st = CAIRO_STATUS_INVALID_POP_GROUP
      then ''Context.pop_group() without matching Context.push_group()''
      else cairo_status_to_string st)"

subsection \<open>The structured exception (lines 96 to 151)\<close>

text \<open>
  The initialiser of the base type, \<open>PycairoError_Type.tp_base->tp_init\<close>: it accepts
  no keyword arguments and stores the argument tuple.
\<close>

definition BaseException_init ::
  "PyBaseExceptionObject \<Rightarrow> pyobject list \<Rightarrow> (string \<times> pyobject) list option \<Rightarrow> pystate
     \<Rightarrow> int \<times> PyBaseExceptionObject \<times> pystate" where
  "BaseException_init self a kwds s =
     (if kwds = None \<or> kwds = Some []
      then (0, self\<lparr>args := a\<rparr>, s)
      else (-1, self, PyErr_SetString PyExc_TypeError ''takes no keyword arguments'' s))"

definition PyTuple_GET_SIZE :: "pyobject list \<Rightarrow> int" where
  "PyTuple_GET_SIZE t = int (length t)"

definition PyTuple_GET_ITEM :: "pyobject list \<Rightarrow> nat \<Rightarrow> pyobject" where
  "PyTuple_GET_ITEM t i = t ! i"

text \<open>
  \<open>error_init\<close>: the \<open>Py_INCREF\<close> of line 112 is applied to the pointer just
  stored, which is not \<open>NULL\<close>.
\<close>

definition error_init ::
  "PycairoErrorObject \<Rightarrow> pyobject list \<Rightarrow> (string \<times> pyobject) list option \<Rightarrow> pystate
     \<Rightarrow> int \<times> PycairoErrorObject \<times> pystate" where
  "error_init self a kwds s =
     (case BaseException_init (base self) a kwds s of
        (r, b, s1) \<Rightarrow>
          if r < 0 then (-1, self\<lparr>base := b\<rparr>, s1)
          else
            let self1 = self\<lparr>base := b\<rparr>;
                self2 = (if PyTuple_GET_SIZE (args (base self1)) \<ge> 2
                         then self1\<lparr>status := Some (PyTuple_GET_ITEM (args (base self1)) 1)\<rparr>
                         else self1\<lparr>status := Some Py_None\<rparr>)
            in (0, self2, s1))"

definition error_get_status :: "PycairoErrorObject \<Rightarrow> pyobject option" where
  "error_get_status self =
     (case Py_INCREF (status self) of
        None \<Rightarrow> None
      | Some _ \<Rightarrow> status self)"

definition error_set_status ::
  "PycairoErrorObject \<Rightarrow> pyobject option \<Rightarrow> pystate \<Rightarrow> (int \<times> PycairoErrorObject \<times> pystate) option" where
  "error_set_status self v s =
     (case v of
        None \<Rightarrow> Some (-1, self, PyErr_SetString PyExc_TypeError ''Cannot delete attribute'' s)
      | Some x \<Rightarrow>
          (case Py_DECREF (status self) of
             None \<Rightarrow> None
           | Some _ \<Rightarrow> Some (0, self\<lparr>status := Some x\<rparr>, s)))"

text \<open>
  \<open>PyObject_Str\<close>: a string is its own string form; for any other object the
  interpreter allocates the text its type gives it, \<open>host_str\<close>.
\<close>

definition PyObject_Str ::
  "(pyobject \<Rightarrow> string) \<Rightarrow> pyobject \<Rightarrow> pystate \<Rightarrow> pyobject option \<times> pystate" where
  "PyObject_Str host_str v s =
     (case v of
        PyUnicode u \<Rightarrow> (Some (PyUnicode u), s)
      | _ \<Rightarrow>
          (case allocate s of
             (True, s1) \<Rightarrow> (Some (PyUnicode (host_str v)), s1)
           | (False, s1) \<Rightarrow> (None, PyErr_NoMemory s1)))"

text \<open>
  The string conversion of the base type, \<open>PycairoError_Type.tp_base->tp_str\<close>:
  nothing for no argument, the argument for one, the tuple for more.
\<close>

definition BaseException_str ::
  "(pyobject \<Rightarrow> string) \<Rightarrow> PyBaseExceptionObject \<Rightarrow> pystate \<Rightarrow> pyobject option \<times> pystate" where
  "BaseException_str host_str self s =
     (case args self of
        [] \<Rightarrow> (Some (PyUnicode []), s)
      | [x] \<Rightarrow> PyObject_Str host_str x s
      | _ \<Rightarrow> PyObject_Str host_str (PyTuple (args self)) s)"

definition error_str ::
  "(pyobject \<Rightarrow> string) \<Rightarrow> PycairoErrorObject \<Rightarrow> pystate \<Rightarrow> pyobject option \<times> pystate" where
  "error_str host_str self s =
     (if PyTuple_GET_SIZE (args (base self)) \<ge> 1
      then PyObject_Str host_str (PyTuple_GET_ITEM (args (base self)) 0) s
      else BaseException_str host_str (base self) s)"

subsection \<open>Calling a type\<close>

text \<open>
  The \<open>tp_init\<close> slot of a type. \<open>cairo.Error\<close> sets it to \<open>error_init\<close>
  (line 230); a type made from the bases \<open>(a, b)\<close> inherits the slot of \<open>a\<close>, the
  first class after itself in its resolution order.
\<close>

datatype initproc = BaseException_init_slot | error_init_slot

fun tp_init :: "pytype \<Rightarrow> initproc" where
  "tp_init PycairoError_Type = error_init_slot"
| "tp_init (HeapType name a b) = tp_init a"
| "tp_init _ = BaseException_init_slot"

text \<open>
  Calling a type with an argument tuple: the instance is allocated with the layout of
  the type, which has the \<open>status\<close> field (still \<open>NULL\<close>) exactly when the type
  derives from \<open>cairo.Error\<close>, and holds the argument tuple; then the initialiser
  runs, and its failure is the failure of the call.
\<close>

definition type_call ::
  "pytype \<Rightarrow> pyobject list \<Rightarrow> (string \<times> pyobject) list option \<Rightarrow> pystate
     \<Rightarrow> exception option \<times> pystate" where
  "type_call t a kwds s =
     (case allocate s of
        (False, s1) \<Rightarrow> (None, PyErr_NoMemory s1)
      | (True, s1) \<Rightarrow>
          if PyType_IsSubtype t PycairoError_Type
          then
            (let self = \<lparr>base = \<lparr>ob_type = t, args = a\<rparr>, status = None\<rparr> in
             case tp_init t of
               error_init_slot \<Rightarrow>
                 (case error_init self a kwds s1 of
                    (r, self1, s2) \<Rightarrow>
                      if r < 0 then (None, s2) else (Some (Structured self1), s2))
             | BaseException_init_slot \<Rightarrow>
                 (case BaseException_init (base self) a kwds s1 of
                    (r, b, s2) \<Rightarrow>
                      if r < 0 then (None, s2) else (Some (Structured (self\<lparr>base := b\<rparr>)), s2)))
          else
            (case BaseException_init \<lparr>ob_type = t, args = a\<rparr> a kwds s1 of
               (r, b, s2) \<Rightarrow> if r < 0 then (None, s2) else (Some (Plain b), s2)))"

text \<open>
  \<open>PyObject_Call\<close> reads both the callable and the argument tuple: neither may be
  \<open>NULL\<close>, and the arguments must be a tuple. An object that is not a type cannot be
  called.
\<close>

definition PyObject_Call ::
  "pyobject option \<Rightarrow> pyobject option \<Rightarrow> (string \<times> pyobject) list option \<Rightarrow> pystate
     \<Rightarrow> (exception option \<times> pystate) option" where
  "PyObject_Call callable a kwds s =
     (case callable of
        None \<Rightarrow> None
      | Some c \<Rightarrow>
          (case a of
             Some (PyTuple xs) \<Rightarrow>
               (case c of
                  PyType t \<Rightarrow> Some (type_call t xs kwds s)
                | _ \<Rightarrow> Some (None, PyErr_SetString PyExc_TypeError ''object is not callable'' s))
           | _ \<Rightarrow> None))"

subsection \<open>Raising an exception for a status code (lines 53 to 94)\<close>

text \<open>
  \<open>set_error\<close> builds the arguments \<open>(description, status)\<close>, calls the type on
  them, and raises the instance if there is one. Neither \<open>error_type\<close> nor the
  argument tuple is compared with \<open>NULL\<close> before it is used.
\<close>

definition set_error ::
  "(cairo_status_t \<Rightarrow> string) \<Rightarrow> pyobject option \<Rightarrow> cairo_status_t \<Rightarrow> pystate \<Rightarrow> pystate option" where
  "set_error cairo_status_to_string error_type st s =
     (case CREATE_INT_ENUM ''Status'' st s of
        (e, s1) \<Rightarrow>
          (case Py_BuildValue_sO (status_to_string cairo_status_to_string st) e s1 of
             (a, s2) \<Rightarrow>
               (case PyObject_Call error_type a None s2 of
                  None \<Rightarrow> None
                | Some (v, s3) \<Rightarrow>
                    (case Py_DECREF a of
                       None \<Rightarrow> None
                     | Some _ \<Rightarrow>
                         (case v of
                            None \<Rightarrow> Some s3
                          | Some ob \<Rightarrow>
                              (let s4 = PyErr_SetObject (Py_TYPE ob) ob s3 in
                               case Py_DECREF v of
                                 None \<Rightarrow> None
                               | Some _ \<Rightarrow> Some s4))))))"

subsection \<open>Combining two exception types (lines 247 to 264)\<close>

text \<open>
  The \<open>Py_DECREF\<close> of line 258 is applied to \<open>class_dict\<close>, which line 253 has
  found not to be \<open>NULL\<close>. The type is made by the name \<open>tp_new\<close> of the type of
  types, on the tuple \<open>(name, (error, other), class_dict)\<close>.
\<close>

definition error_get_type_combined ::
  "pyobject option \<Rightarrow> pyobject option \<Rightarrow> string \<Rightarrow> pystate \<Rightarrow> pyobject option \<times> pystate" where
  "error_get_type_combined error other name s =
     (case PyDict_New s of
        (None, s1) \<Rightarrow> (None, s1)
      | (Some class_dict, s1) \<Rightarrow>
          (case Py_BuildValue_s_OO_O name error other (Some class_dict) s1 of
             (None, s2) \<Rightarrow> (None, s2)
           | (Some new_type_args, s2) \<Rightarrow> PyType_Type_tp_new new_type_args s2))"

subsection \<open>The status translator (lines 69 to 94)\<close>

definition Pycairo_Check_Status ::
  "(cairo_status_t \<Rightarrow> string) \<Rightarrow> cairo_status_t \<Rightarrow> pystate \<Rightarrow> (int \<times> pystate) option" where
  "Pycairo_Check_Status cairo_status_to_string st s =
     (if PyErr_Occurred s \<noteq> None then Some (1, s)
      else
        case st of
          CAIRO_STATUS_SUCCESS \<Rightarrow> Some (0, s)
        | CAIRO_STATUS_NO_MEMORY \<Rightarrow>
            (case error_get_type_combined
                    Pycairo_Get_Error (Some (PyType PyExc_MemoryError)) ''MemoryError'' s of
               (suberror, s1) \<Rightarrow>
                 (case set_error cairo_status_to_string suberror st s1 of
                    None \<Rightarrow> None
                  | Some s2 \<Rightarrow>
                      (case Py_DECREF suberror of
                         None \<Rightarrow> None
                       | Some _ \<Rightarrow> Some (1, s2))))
        | CAIRO_STATUS_READ_ERROR \<Rightarrow>
            Some (1, PyErr_SetString PyExc_IOError (cairo_status_to_string st) s)
        | CAIRO_STATUS_WRITE_ERROR \<Rightarrow>
            Some (1, PyErr_SetString PyExc_IOError (cairo_status_to_string st) s)
        | _ \<Rightarrow>
            (case set_error cairo_status_to_string Pycairo_Get_Error st s of
               None \<Rightarrow> None
             | Some s1 \<Rightarrow> Some (1, s1)))"

subsection \<open>Allocation outcomes and sample inputs\<close>

text \<open>
  \<open>granted n s\<close>: the next \<open>n\<close> allocation requests made from \<open>s\<close> are granted.
\<close>

definition granted :: "nat \<Rightarrow> pystate \<Rightarrow> bool" where
  "granted n s = (\<forall>i<n. \<not> oom s (requests s + i))"

text \<open>
  An interpreter with no exception pending and no shortage of memory, and one in which
  an earlier failure is still pending.
\<close>

definition idle :: pystate where
  "idle = \<lparr>curexc = None, requests = 0, oom = (\<lambda>n. False)\<rparr>"

definition earlier_failure :: exception where
  "earlier_failure = Plain \<lparr>ob_type = PyExc_TypeError, args = [PyUnicode ''earlier failure'']\<rparr>"

definition failed :: pystate where
  "failed = \<lparr>curexc = Some earlier_failure, requests = 0, oom = (\<lambda>n. False)\<rparr>"

text \<open>
  A stand-in for \<open>cairo_status_to_string\<close> in the examples, with the texts the native
  library has for the six codes the file names.
\<close>

definition sample_text :: "cairo_status_t \<Rightarrow> string" where
  "sample_text st =
     (case st of
        CAIRO_STATUS_SUCCESS \<Rightarrow> ''no error has occurred''
      | CAIRO_STATUS_NO_MEMORY \<Rightarrow> ''out of memory''
      | CAIRO_STATUS_INVALID_RESTORE \<Rightarrow> ''cairo_restore() without matching cairo_save()''
      | CAIRO_STATUS_INVALID_POP_GROUP \<Rightarrow>
          ''no saved group to pop, i.e. cairo_pop_group() without matching cairo_push_group()''
      | CAIRO_STATUS_READ_ERROR \<Rightarrow> ''error while reading from input stream''
      | CAIRO_STATUS_WRITE_ERROR \<Rightarrow> ''error while writing to output stream''
      | CAIRO_STATUS_OTHER n \<Rightarrow> ''<unknown error status>'')"

text \<open>An exception object as \<open>tp_new\<close> leaves it: the arguments stored, no status yet.\<close>

definition boom :: "pyobject list \<Rightarrow> PycairoErrorObject" where
  "boom a = \<lparr>base = \<lparr>ob_type = PycairoError_Type, args = a\<rparr>, status = None\<rparr>"

section \<open>Properties\<close>

subsection \<open>Allocation\<close>

lemma granted_nth: "granted n s \<Longrightarrow> i < n \<Longrightarrow> \<not> oom s (requests s + i)"
  by (simp add: granted_def)

lemma granted_idle: "granted n idle"
  by (simp add: granted_def idle_def)

lemma granted_one: "granted (Suc 0) s \<longleftrightarrow> \<not> oom s (requests s)"
  by (simp add: granted_def)

text \<open>Whatever the allocator answers, \<open>PyErr_SetString\<close> leaves an exception pending.\<close>

lemma PyErr_SetString_pending: "curexc (PyErr_SetString t msg s) \<noteq> None"
  by (simp add: PyErr_SetString_def allocate_def PyErr_NoMemory_def split: bool.splits)

lemma PyErr_SetString_raises: "\<exists>e. curexc (PyErr_SetString t msg s) = Some e"
  using PyErr_SetString_pending [of t msg s] by auto

lemma PyErr_SetString_granted:
  "\<not> oom s (requests s) \<Longrightarrow>
     PyErr_SetString t msg s =
       s\<lparr>requests := Suc (requests s),
          curexc := Some (Plain \<lparr>ob_type = t, args = [PyUnicode msg]\<rparr>)\<rparr>"
  by (simp add: PyErr_SetString_def allocate_def)

lemma PyErr_SetString_refused:
  "oom s (requests s) \<Longrightarrow>
     PyErr_SetString t msg s =
       s\<lparr>requests := Suc (requests s),
          curexc := Some (Plain \<lparr>ob_type = PyExc_MemoryError, args = []\<rparr>)\<rparr>"
  by (simp add: PyErr_SetString_def allocate_def PyErr_NoMemory_def)

subsection \<open>The type combiner\<close>

lemma error_get_type_combined_granted:
  assumes "granted 3 s"
  shows "error_get_type_combined (Some (PyType a)) (Some (PyType b)) name s =
           (Some (PyType (HeapType name a b)), s\<lparr>requests := Suc (Suc (Suc (requests s)))\<rparr>)"
proof -
  have a0: "\<not> oom s (requests s)"
    using granted_nth [OF assms, of 0] by simp
  have a1: "\<not> oom s (Suc (requests s))"
    using granted_nth [OF assms, of 1] by simp
  have a2: "\<not> oom s (Suc (Suc (requests s)))"
    using granted_nth [OF assms, of 2] by (simp add: eval_nat_numeral)
  show ?thesis
    by (simp add: error_get_type_combined_def PyDict_New_def Py_BuildValue_s_OO_O_def
        PyType_Type_tp_new_def allocate_def a0 a1 a2)
qed

text \<open>The combiner returns \<open>NULL\<close> exactly when one of its three requests is refused.\<close>

lemma error_get_type_combined_null:
  "fst (error_get_type_combined (Some (PyType a)) (Some (PyType b)) name s) = None \<longleftrightarrow>
     oom s (requests s) \<or> oom s (Suc (requests s)) \<or> oom s (Suc (Suc (requests s)))"
  by (cases "oom s (requests s)"; cases "oom s (Suc (requests s))";
      cases "oom s (Suc (Suc (requests s)))")
     (simp_all add: error_get_type_combined_def PyDict_New_def Py_BuildValue_s_OO_O_def
        PyType_Type_tp_new_def allocate_def)

text \<open>When it returns \<open>NULL\<close> it has raised an exception, as its callers expect.\<close>

lemma error_get_type_combined_null_pending:
  "error_get_type_combined (Some (PyType a)) (Some (PyType b)) name s = (None, s1)
     \<Longrightarrow> curexc s1 \<noteq> None"
  by (auto simp add: error_get_type_combined_def PyDict_New_def Py_BuildValue_s_OO_O_def
      PyType_Type_tp_new_def allocate_def PyErr_NoMemory_def
      split: bool.splits if_splits)

subsection \<open>Raising\<close>

lemma set_error_granted:
  assumes g: "granted 3 s"
    and t: "PyType_IsSubtype t PycairoError_Type" "tp_init t = error_init_slot"
  shows "set_error f (Some (PyType t)) st s =
           Some (s\<lparr>requests := Suc (Suc (Suc (requests s))),
                   curexc := Some (Structured
                     \<lparr>base = \<lparr>ob_type = t,
                               args = [PyUnicode (status_to_string f st), IntEnum ''Status'' st]\<rparr>,
                      status = Some (IntEnum ''Status'' st)\<rparr>)\<rparr>)"
proof -
  have a0: "\<not> oom s (requests s)"
    using granted_nth [OF g, of 0] by simp
  have a1: "\<not> oom s (Suc (requests s))"
    using granted_nth [OF g, of 1] by simp
  have a2: "\<not> oom s (Suc (Suc (requests s)))"
    using granted_nth [OF g, of 2] by (simp add: eval_nat_numeral)
  show ?thesis
    by (simp add: set_error_def CREATE_INT_ENUM_def Py_BuildValue_sO_def PyObject_Call_def
        type_call_def error_init_def BaseException_init_def PyTuple_GET_SIZE_def
        PyTuple_GET_ITEM_def Py_DECREF_def PyErr_SetObject_def allocate_def a0 a1 a2 t)
qed

text \<open>\<open>set_error\<close> does not look at its first argument before calling it.\<close>

lemma set_error_null_type: "set_error f None st s = None"
  by (simp add: set_error_def PyObject_Call_def split: prod.splits)

lemma type_call_null_pending:
  "type_call t a None s = (None, s') \<Longrightarrow> curexc s' \<noteq> None"
  by (auto simp add: type_call_def allocate_def PyErr_NoMemory_def error_init_def
      BaseException_init_def Let_def split: if_splits initproc.splits bool.splits)

lemma PyObject_Call_null_pending:
  "PyObject_Call c a None s = Some (None, s') \<Longrightarrow> curexc s' \<noteq> None"
  by (auto simp add: PyObject_Call_def PyErr_SetString_raises
      split: option.splits pyobject.splits dest: type_call_null_pending)

text \<open>Whenever \<open>set_error\<close> returns, an exception is pending.\<close>

lemma set_error_returns_pending:
  "set_error f t st s = Some s' \<Longrightarrow> curexc s' \<noteq> None"
  by (auto simp add: set_error_def PyErr_SetObject_def Py_DECREF_def
      split: prod.splits option.splits dest: PyObject_Call_null_pending)

subsection \<open>The translator\<close>

text \<open>
  Whenever the translator returns on a status other than success, it returns 1 with an
  exception pending.
\<close>

lemma Pycairo_Check_Status_returns_pending:
  assumes "st \<noteq> CAIRO_STATUS_SUCCESS" and "curexc s = None"
    and "Pycairo_Check_Status f st s = Some (r, s')"
  shows "r = 1 \<and> curexc s' \<noteq> None"
  using assms
  by (auto simp add: Pycairo_Check_Status_def PyErr_Occurred_def PyErr_SetString_raises
      split: cairo_status_t.splits prod.splits option.splits dest: set_error_returns_pending)

lemma cairo_Error_slots:
  "PyType_IsSubtype PycairoError_Type PycairoError_Type" "tp_init PycairoError_Type = error_init_slot"
  by (simp_all add: PyType_IsSubtype_def)

lemma combined_slots:
  "PyType_IsSubtype (HeapType name PycairoError_Type b) PycairoError_Type"
  "tp_init (HeapType name PycairoError_Type b) = error_init_slot"
  by (simp_all add: PyType_IsSubtype_def)

lemma granted_mono: "granted n s \<Longrightarrow> m \<le> n \<Longrightarrow> granted m s"
  by (simp add: granted_def)

lemma granted_shift:
  assumes "granted (n + k) s"
  shows "granted n (s\<lparr>requests := requests s + k\<rparr>)"
  unfolding granted_def
proof (intro allI impI)
  fix i
  assume "i < n"
  then have "k + i < n + k"
    by simp
  then have "\<not> oom s (requests s + (k + i))"
    by (rule granted_nth [OF assms])
  then show "\<not> oom (s\<lparr>requests := requests s + k\<rparr>) (requests (s\<lparr>requests := requests s + k\<rparr>) + i)"
    by (simp add: add.assoc)
qed

lemma no_memory_granted:
  assumes "curexc s = None" and g: "granted 6 s"
  shows "Pycairo_Check_Status f CAIRO_STATUS_NO_MEMORY s =
     Some (1, s\<lparr>requests := requests s + 6,
                 curexc := Some (Structured
                   \<lparr>base = \<lparr>ob_type = HeapType ''MemoryError'' PycairoError_Type PyExc_MemoryError,
                             args = [PyUnicode (status_to_string f CAIRO_STATUS_NO_MEMORY),
                                     IntEnum ''Status'' CAIRO_STATUS_NO_MEMORY]\<rparr>,
                    status = Some (IntEnum ''Status'' CAIRO_STATUS_NO_MEMORY)\<rparr>)\<rparr>)"
proof -
  let ?s1 = "s\<lparr>requests := Suc (Suc (Suc (requests s)))\<rparr>"
  have g3: "granted 3 s"
    using g by (rule granted_mono) simp
  have "granted (3 + 3) s"
    using g by simp
  then have "granted 3 (s\<lparr>requests := requests s + 3\<rparr>)"
    by (rule granted_shift)
  then have g3': "granted 3 ?s1"
    by (simp add: eval_nat_numeral)
  have c: "error_get_type_combined Pycairo_Get_Error (Some (PyType PyExc_MemoryError)) ''MemoryError'' s
             = (Some (PyType (HeapType ''MemoryError'' PycairoError_Type PyExc_MemoryError)), ?s1)"
    unfolding Pycairo_Get_Error_def by (rule error_get_type_combined_granted [OF g3])
  show ?thesis
    using assms(1)
    by (simp add: Pycairo_Check_Status_def PyErr_Occurred_def c
        set_error_granted [OF g3' combined_slots] Py_DECREF_def eval_nat_numeral)
qed

lemma other_granted:
  assumes "curexc s = None" and g: "granted 3 s"
    and "st \<notin> {CAIRO_STATUS_SUCCESS, CAIRO_STATUS_NO_MEMORY, CAIRO_STATUS_READ_ERROR, CAIRO_STATUS_WRITE_ERROR}"
  shows "Pycairo_Check_Status f st s =
     Some (1, s\<lparr>requests := requests s + 3,
                 curexc := Some (Structured
                   \<lparr>base = \<lparr>ob_type = PycairoError_Type,
                             args = [PyUnicode (status_to_string f st), IntEnum ''Status'' st]\<rparr>,
                    status = Some (IntEnum ''Status'' st)\<rparr>)\<rparr>)"
  using assms(1,3)
  by (cases st)
     (simp_all add: Pycairo_Check_Status_def PyErr_Occurred_def Pycairo_Get_Error_def
        set_error_granted [OF g cairo_Error_slots] eval_nat_numeral)

lemma io_error:
  assumes "curexc s = None" and "st = CAIRO_STATUS_READ_ERROR \<or> st = CAIRO_STATUS_WRITE_ERROR"
  shows "Pycairo_Check_Status f st s = Some (1, PyErr_SetString PyExc_IOError (f st) s)"
  using assms
  by (auto simp add: Pycairo_Check_Status_def PyErr_Occurred_def)

lemma Pycairo_Check_Status_granted:
  assumes "st \<noteq> CAIRO_STATUS_SUCCESS" and "curexc s = None" and g: "granted 6 s"
  shows "\<exists>s' e. Pycairo_Check_Status f st s = Some (1, s') \<and> curexc s' = Some e"
proof -
  have g3: "granted 3 s"
    using g by (rule granted_mono) simp
  consider "st = CAIRO_STATUS_NO_MEMORY"
    | "st = CAIRO_STATUS_READ_ERROR \<or> st = CAIRO_STATUS_WRITE_ERROR"
    | "st \<notin> {CAIRO_STATUS_SUCCESS, CAIRO_STATUS_NO_MEMORY, CAIRO_STATUS_READ_ERROR, CAIRO_STATUS_WRITE_ERROR}"
    using assms(1) by auto
  then show ?thesis
  proof cases
    case 1
    then show ?thesis using no_memory_granted [OF assms(2) g, of f] by simp
  next
    case 2
    have "\<not> oom s (requests s)"
      using granted_nth [OF g, of 0] by simp
    then show ?thesis
      using io_error [OF assms(2) 2, of f] by (simp add: PyErr_SetString_granted)
  next
    case 3
    then show ?thesis using other_granted [OF assms(2) g3 3, of f] by simp
  qed
qed

section \<open>The claims\<close>

text \<open>
  Claim C1. For every status code other than success, called with no exception pending,
  the translator returns the failure signal and leaves one exception pending. It does
  when its allocation requests are granted (\<open>Pycairo_Check_Status_granted\<close>), and no
  run returns without one (\<open>Pycairo_Check_Status_returns_pending\<close>). It does not on
  the out-of-memory status when the interpreter refuses the dictionary of the combined
  type: the combiner returns \<open>NULL\<close> with a memory error raised, lines 82 and 83 hand
  the \<open>NULL\<close> to \<open>PyObject_Call\<close> and \<open>Py_DECREF\<close>, and the run is undefined.
\<close>

theorem Pycairo_Check_Status_dict_refused:
  "error_get_type_combined Pycairo_Get_Error (Some (PyType PyExc_MemoryError)) ''MemoryError''
       \<lparr>curexc = None, requests = 0, oom = (\<lambda>n. n = 0)\<rparr>
     = (None, \<lparr>curexc = Some (Plain \<lparr>ob_type = PyExc_MemoryError, args = []\<rparr>),
               requests = 1, oom = (\<lambda>n. n = 0)\<rparr>)
   \<and> Pycairo_Check_Status sample_text CAIRO_STATUS_NO_MEMORY
       \<lparr>curexc = None, requests = 0, oom = (\<lambda>n. n = 0)\<rparr> = None"
proof -
  have c: "error_get_type_combined Pycairo_Get_Error (Some (PyType PyExc_MemoryError)) ''MemoryError''
       \<lparr>curexc = None, requests = 0, oom = (\<lambda>n. n = 0)\<rparr>
     = (None, \<lparr>curexc = Some (Plain \<lparr>ob_type = PyExc_MemoryError, args = []\<rparr>),
               requests = 1, oom = (\<lambda>n. n = 0)\<rparr>)"
    by (simp add: error_get_type_combined_def PyDict_New_def allocate_def PyErr_NoMemory_def)
  show ?thesis
    by (simp add: c Pycairo_Check_Status_def PyErr_Occurred_def set_error_null_type)
qed

text \<open>
  Claim C2. With an exception already pending, the translator returns the failure signal
  for every status code, success included, and the interpreter state, the pending
  exception with it, is the one it was called in.
\<close>

theorem Pycairo_Check_Status_pending:
  "curexc s = Some e \<Longrightarrow> Pycairo_Check_Status f st s = Some (1, s)"
  by (simp add: Pycairo_Check_Status_def PyErr_Occurred_def)

theorem Pycairo_Check_Status_pending_witness:
  "curexc failed = Some earlier_failure
   \<and> Pycairo_Check_Status sample_text CAIRO_STATUS_SUCCESS failed = Some (1, failed)
   \<and> Pycairo_Check_Status sample_text CAIRO_STATUS_NO_MEMORY failed = Some (1, failed)"
proof -
  have h: "curexc failed = Some earlier_failure"
    by (simp add: failed_def)
  show ?thesis
    using h Pycairo_Check_Status_pending [OF h, of sample_text CAIRO_STATUS_SUCCESS]
      Pycairo_Check_Status_pending [OF h, of sample_text CAIRO_STATUS_NO_MEMORY]
    by simp
qed

text \<open>
  Claim C3, as stated: on the success status the translator returns the no-failure signal
  whether or not an exception was pending. With one pending it returns the failure
  signal (line 73 comes before the switch).
\<close>

theorem Pycairo_Check_Status_success_pending_counterexample:
  "Pycairo_Check_Status sample_text CAIRO_STATUS_SUCCESS
       \<lparr>curexc = Some (Plain \<lparr>ob_type = PyExc_TypeError, args = [PyUnicode ''earlier failure'']\<rparr>),
        requests = 0, oom = (\<lambda>n. False)\<rparr>
     = Some (1, \<lparr>curexc = Some (Plain \<lparr>ob_type = PyExc_TypeError,
                                       args = [PyUnicode ''earlier failure'']\<rparr>),
                 requests = 0, oom = (\<lambda>n. False)\<rparr>)
   \<and> Pycairo_Check_Status sample_text CAIRO_STATUS_SUCCESS
       \<lparr>curexc = Some (Plain \<lparr>ob_type = PyExc_TypeError, args = [PyUnicode ''earlier failure'']\<rparr>),
        requests = 0, oom = (\<lambda>n. False)\<rparr>
     \<noteq> Some (0, \<lparr>curexc = Some (Plain \<lparr>ob_type = PyExc_TypeError,
                                       args = [PyUnicode ''earlier failure'']\<rparr>),
                 requests = 0, oom = (\<lambda>n. False)\<rparr>)"
  by (simp add: Pycairo_Check_Status_def PyErr_Occurred_def)

text \<open>
  Claim C3, amended: on the success status the translator leaves the interpreter state
  as it is; it returns the no-failure signal when no exception is pending and the failure
  signal when one is.
\<close>

theorem Pycairo_Check_Status_success:
  "Pycairo_Check_Status f CAIRO_STATUS_SUCCESS s = Some (if curexc s = None then 0 else 1, s)"
  by (simp add: Pycairo_Check_Status_def PyErr_Occurred_def)

text \<open>
  Claim C4. On the out-of-memory status, with no exception pending and the six
  allocation requests of the path granted, the translator raises an instance of the type
  the combiner makes from the bases \<open>cairo.Error\<close> and \<open>MemoryError\<close>, and no others;
  the instance is an instance of both, and it is built from the description of the status
  and the status.
\<close>

theorem Pycairo_Check_Status_no_memory:
  assumes "curexc s = None" and "granted 6 s"
  shows "\<exists>s' e t.
           Pycairo_Check_Status f CAIRO_STATUS_NO_MEMORY s = Some (1, s')
         \<and> curexc s' = Some (Structured e)
         \<and> fst (error_get_type_combined
                  Pycairo_Get_Error (Some (PyType PyExc_MemoryError)) ''MemoryError'' s)
             = Some (PyType t)
         \<and> Py_TYPE (Structured e) = t
         \<and> tp_bases t = [PycairoError_Type, PyExc_MemoryError]
         \<and> PyObject_IsInstance (Structured e) PycairoError_Type
         \<and> PyObject_IsInstance (Structured e) PyExc_MemoryError
         \<and> args (base e) = [PyUnicode (status_to_string f CAIRO_STATUS_NO_MEMORY),
                             IntEnum ''Status'' CAIRO_STATUS_NO_MEMORY]
         \<and> status e = Some (IntEnum ''Status'' CAIRO_STATUS_NO_MEMORY)"
proof -
  have g3: "granted 3 s"
    using assms(2) by (rule granted_mono) simp
  have c: "error_get_type_combined Pycairo_Get_Error (Some (PyType PyExc_MemoryError)) ''MemoryError'' s
             = (Some (PyType (HeapType ''MemoryError'' PycairoError_Type PyExc_MemoryError)),
                s\<lparr>requests := Suc (Suc (Suc (requests s)))\<rparr>)"
    unfolding Pycairo_Get_Error_def by (rule error_get_type_combined_granted [OF g3])
  show ?thesis
    by (simp add: no_memory_granted [OF assms] c PyObject_IsInstance_def PyType_IsSubtype_def)
qed

theorem Pycairo_Check_Status_no_memory_witness:
  "curexc idle = None \<and> granted 6 idle
   \<and> (\<exists>s' e t.
           Pycairo_Check_Status sample_text CAIRO_STATUS_NO_MEMORY idle = Some (1, s')
         \<and> curexc s' = Some (Structured e)
         \<and> fst (error_get_type_combined
                  Pycairo_Get_Error (Some (PyType PyExc_MemoryError)) ''MemoryError'' idle)
             = Some (PyType t)
         \<and> Py_TYPE (Structured e) = t
         \<and> tp_bases t = [PycairoError_Type, PyExc_MemoryError]
         \<and> PyObject_IsInstance (Structured e) PycairoError_Type
         \<and> PyObject_IsInstance (Structured e) PyExc_MemoryError
         \<and> args (base e) = [PyUnicode (status_to_string sample_text CAIRO_STATUS_NO_MEMORY),
                             IntEnum ''Status'' CAIRO_STATUS_NO_MEMORY]
         \<and> status e = Some (IntEnum ''Status'' CAIRO_STATUS_NO_MEMORY))
   \<and> status_to_string sample_text CAIRO_STATUS_NO_MEMORY = ''out of memory''"
proof -
  have h: "curexc idle = None"
    by (simp add: idle_def)
  have d: "status_to_string sample_text CAIRO_STATUS_NO_MEMORY = ''out of memory''"
    by (simp add: status_to_string_def sample_text_def)
  show ?thesis
    by (intro conjI h granted_idle d Pycairo_Check_Status_no_memory [OF h granted_idle])
qed

text \<open>
  Claim C5. On the read-error and write-error statuses, with no exception pending, the
  translator returns the failure signal with one exception pending, which is never an
  instance of \<open>cairo.Error\<close>. When the interpreter grants the message object, the
  exception is a plain instance of the interpreter's I/O error whose only argument is
  the native library's own text for the code; when it refuses, the exception is the
  memory error of the refusal.
\<close>

theorem Pycairo_Check_Status_io_error:
  assumes "curexc s = None" and "st = CAIRO_STATUS_READ_ERROR \<or> st = CAIRO_STATUS_WRITE_ERROR"
  shows "\<exists>s' e. Pycairo_Check_Status f st s = Some (1, s')
           \<and> curexc s' = Some e
           \<and> \<not> PyObject_IsInstance e PycairoError_Type
           \<and> (granted 1 s \<longrightarrow>
                 e = Plain \<lparr>ob_type = PyExc_IOError, args = [PyUnicode (f st)]\<rparr>
               \<and> PyObject_IsInstance e PyExc_IOError)
           \<and> (\<not> granted 1 s \<longrightarrow> e = Plain \<lparr>ob_type = PyExc_MemoryError, args = []\<rparr>)"
proof (cases "oom s (requests s)")
  case True
  then show ?thesis
    by (simp add: io_error [OF assms] PyErr_SetString_refused granted_one
        PyObject_IsInstance_def PyType_IsSubtype_def)
next
  case False
  then show ?thesis
    by (simp add: io_error [OF assms] PyErr_SetString_granted granted_one
        PyObject_IsInstance_def PyType_IsSubtype_def)
qed

theorem Pycairo_Check_Status_io_error_witness:
  "curexc idle = None \<and> granted 1 idle
   \<and> (\<exists>s'. Pycairo_Check_Status sample_text CAIRO_STATUS_READ_ERROR idle = Some (1, s')
           \<and> curexc s' = Some (Plain \<lparr>ob_type = PyExc_IOError,
                                        args = [PyUnicode ''error while reading from input stream'']\<rparr>))
   \<and> (\<exists>s'. Pycairo_Check_Status sample_text CAIRO_STATUS_WRITE_ERROR idle = Some (1, s')
           \<and> curexc s' = Some (Plain \<lparr>ob_type = PyExc_IOError,
                                        args = [PyUnicode ''error while writing to output stream'']\<rparr>))"
proof -
  have h: "curexc idle = None"
    by (simp add: idle_def)
  have g: "granted 1 idle"
    by (rule granted_idle)
  have r: "\<exists>s'. Pycairo_Check_Status sample_text CAIRO_STATUS_READ_ERROR idle = Some (1, s')
           \<and> curexc s' = Some (Plain \<lparr>ob_type = PyExc_IOError,
                                        args = [PyUnicode ''error while reading from input stream'']\<rparr>)"
    using Pycairo_Check_Status_io_error [OF h, of CAIRO_STATUS_READ_ERROR sample_text] g
    by (auto simp add: sample_text_def)
  have w: "\<exists>s'. Pycairo_Check_Status sample_text CAIRO_STATUS_WRITE_ERROR idle = Some (1, s')
           \<and> curexc s' = Some (Plain \<lparr>ob_type = PyExc_IOError,
                                        args = [PyUnicode ''error while writing to output stream'']\<rparr>)"
    using Pycairo_Check_Status_io_error [OF h, of CAIRO_STATUS_WRITE_ERROR sample_text] g
    by (auto simp add: sample_text_def)
  show ?thesis
    by (intro conjI h g r w)
qed

text \<open>
  Claim C6. \<open>status_to_string\<close> gives the invalid-restore and invalid-pop-group codes
  texts of the binding, which name \<open>Context.restore\<close>, \<open>Context.save\<close>,
  \<open>Context.pop_group\<close> and \<open>Context.push_group\<close>; for every other code it gives
  the text of the native library.
\<close>

theorem status_to_string_overrides:
  "status_to_string f CAIRO_STATUS_INVALID_RESTORE
     = ''Context.restore() without matching Context.save()''
   \<and> status_to_string f CAIRO_STATUS_INVALID_POP_GROUP
     = ''Context.pop_group() without matching Context.push_group()''
   \<and> (st \<noteq> CAIRO_STATUS_INVALID_RESTORE \<and> st \<noteq> CAIRO_STATUS_INVALID_POP_GROUP
        \<longrightarrow> status_to_string f st = f st)"
  by (simp add: status_to_string_def)

theorem status_to_string_overrides_witness:
  "status_to_string sample_text CAIRO_STATUS_INVALID_RESTORE
     = ''Context.restore() without matching Context.save()''
   \<and> status_to_string sample_text CAIRO_STATUS_INVALID_POP_GROUP
     = ''Context.pop_group() without matching Context.push_group()''
   \<and> status_to_string sample_text CAIRO_STATUS_NO_MEMORY = ''out of memory''
   \<and> status_to_string sample_text (CAIRO_STATUS_OTHER 7) = ''<unknown error status>''"
  using status_to_string_overrides [of sample_text CAIRO_STATUS_NO_MEMORY]
    status_to_string_overrides [of sample_text "CAIRO_STATUS_OTHER 7"]
  by (simp add: sample_text_def)

text \<open>
  Claim C7. \<open>error_init\<close> first runs the initialiser of the base type. When that
  fails, so does \<open>error_init\<close>, and the status is not touched. When it accepts the
  arguments, \<open>error_init\<close> succeeds and the status is the second element of the stored
  argument tuple if the tuple has at least two elements, and \<open>None\<close> otherwise.
\<close>

theorem error_init_status:
  assumes "BaseException_init (base self) a kwds s = (r, b, s1)"
  shows "(0 \<le> r \<longrightarrow>
            error_init self a kwds s =
              (0, \<lparr>base = b,
                   status = Some (if 2 \<le> length (args b) then args b ! 1 else Py_None)\<rparr>, s1)
          \<and> args b = a)
       \<and> (r < 0 \<longrightarrow> error_init self a kwds s = (-1, self\<lparr>base := b\<rparr>, s1))"
  using assms
  by (auto simp add: error_init_def BaseException_init_def PyTuple_GET_SIZE_def
      PyTuple_GET_ITEM_def Let_def split: if_splits)

theorem error_init_status_witness:
  "BaseException_init (base (boom [PyUnicode ''boom'', PyLong 42]))
       [PyUnicode ''boom'', PyLong 42] None idle
     = (0, \<lparr>ob_type = PycairoError_Type, args = [PyUnicode ''boom'', PyLong 42]\<rparr>, idle)
   \<and> error_init (boom [PyUnicode ''boom'', PyLong 42]) [PyUnicode ''boom'', PyLong 42] None idle
     = (0, \<lparr>base = \<lparr>ob_type = PycairoError_Type, args = [PyUnicode ''boom'', PyLong 42]\<rparr>,
            status = Some (PyLong 42)\<rparr>, idle)
   \<and> error_init (boom [PyUnicode ''boom'']) [PyUnicode ''boom''] None idle
     = (0, \<lparr>base = \<lparr>ob_type = PycairoError_Type, args = [PyUnicode ''boom'']\<rparr>,
            status = Some Py_None\<rparr>, idle)
   \<and> fst (error_init (boom [PyUnicode ''boom'']) [PyUnicode ''boom'']
            (Some [(''status'', PyLong 42)]) idle) = - 1"
proof -
  have two: "BaseException_init (base (boom [PyUnicode ''boom'', PyLong 42]))
       [PyUnicode ''boom'', PyLong 42] None idle
     = (0, \<lparr>ob_type = PycairoError_Type, args = [PyUnicode ''boom'', PyLong 42]\<rparr>, idle)"
    by (simp add: BaseException_init_def boom_def)
  have one: "BaseException_init (base (boom [PyUnicode ''boom''])) [PyUnicode ''boom''] None idle
     = (0, \<lparr>ob_type = PycairoError_Type, args = [PyUnicode ''boom'']\<rparr>, idle)"
    by (simp add: BaseException_init_def boom_def)
  have kw: "BaseException_init (base (boom [PyUnicode ''boom''])) [PyUnicode ''boom'']
       (Some [(''status'', PyLong 42)]) idle
     = (- 1, \<lparr>ob_type = PycairoError_Type, args = [PyUnicode ''boom'']\<rparr>,
        PyErr_SetString PyExc_TypeError ''takes no keyword arguments'' idle)"
    by (simp add: BaseException_init_def boom_def)
  show ?thesis
    using two error_init_status [OF two] error_init_status [OF one] error_init_status [OF kw]
    by simp
qed

text \<open>
  Claim C8. The string conversion of a structured exception whose argument tuple is not
  empty is the string form of its first argument alone; with an empty tuple it is the
  string conversion of the base type.
\<close>

theorem error_str_message:
  "(1 \<le> length (args (base self)) \<longrightarrow>
      error_str h self s = PyObject_Str h (args (base self) ! 0) s)
   \<and> (args (base self) = [] \<longrightarrow> error_str h self s = BaseException_str h (base self) s)"
  by (simp add: error_str_def PyTuple_GET_SIZE_def PyTuple_GET_ITEM_def)

theorem error_str_message_witness:
  "error_str (\<lambda>v. ''<object>'') (boom [PyUnicode ''boom'', PyLong 42]) idle
     = (Some (PyUnicode ''boom''), idle)
   \<and> error_str (\<lambda>v. ''<object>'') (boom []) idle
     = BaseException_str (\<lambda>v. ''<object>'') (base (boom [])) idle
   \<and> error_str (\<lambda>v. ''<object>'') (boom []) idle = (Some (PyUnicode ''''), idle)"
  using error_str_message [of "boom [PyUnicode ''boom'', PyLong 42]" "\<lambda>v. ''<object>''" idle]
    error_str_message [of "boom []" "\<lambda>v. ''<object>''" idle]
  by (simp add: boom_def PyObject_Str_def BaseException_str_def)

text \<open>
  On an exception that holds a status, assigning a value to the attribute succeeds and
  the exception then holds that value; deleting the attribute fails with the exception
  unchanged, and a \<open>TypeError\<close> is raised when the interpreter grants its message.
\<close>

lemma error_set_status_initialised:
  assumes "status self = Some old"
  shows "error_set_status self (Some v) s = Some (0, self\<lparr>status := Some v\<rparr>, s)
       \<and> error_get_status (self\<lparr>status := Some v\<rparr>) = Some v
       \<and> error_set_status self None s =
           Some (- 1, self, PyErr_SetString PyExc_TypeError ''Cannot delete attribute'' s)
       \<and> error_get_status self = Some old"
  using assms
  by (simp add: error_set_status_def error_get_status_def Py_DECREF_def Py_INCREF_def)

text \<open>
  Claim C9. On every structured exception, assigning a value to the status attribute
  replaces the value held, and deleting the attribute fails and leaves it. The code does
  so on an exception that \<open>error_init\<close> has initialised
  (\<open>error_set_status_initialised\<close>). An exception that was only allocated, as
  \<open>cairo.Error.__new__\<close> returns it, has \<open>NULL\<close> in the field: line 130 hands it to
  \<open>Py_DECREF\<close> and line 119 to \<open>Py_INCREF\<close>, and both the assignment and the read
  are undefined.
\<close>

theorem error_set_status_null_status:
  assumes "status self = None"
  shows "error_set_status self (Some v) s = None \<and> error_get_status self = None"
  using assms
  by (simp add: error_set_status_def error_get_status_def Py_DECREF_def Py_INCREF_def)

theorem error_set_status_null_status_witness:
  "status (boom [PyUnicode ''boom'', PyLong 42]) = None
   \<and> error_set_status (boom [PyUnicode ''boom'', PyLong 42]) (Some (PyLong 7)) idle = None
   \<and> error_get_status (boom [PyUnicode ''boom'', PyLong 42]) = None"
proof -
  have h: "status (boom [PyUnicode ''boom'', PyLong 42]) = None"
    by (simp add: boom_def)
  show ?thesis
    using h error_set_status_null_status [OF h, of "PyLong 7" idle] by simp
qed

text \<open>
  When the combined type and the argument tuple are built and the interpreter then
  refuses the exception instance, the translator returns the failure signal with the
  memory error of that refusal pending.
\<close>

lemma no_memory_instance_refused:
  assumes "curexc s = None" and g: "granted 5 s" and r: "oom s (requests s + 5)"
  shows "Pycairo_Check_Status f CAIRO_STATUS_NO_MEMORY s =
           Some (1, PyErr_NoMemory (s\<lparr>requests := requests s + 6\<rparr>))"
proof -
  have a: "\<not> oom s (requests s)" "\<not> oom s (Suc (requests s))"
    "\<not> oom s (Suc (Suc (requests s)))" "\<not> oom s (Suc (Suc (Suc (requests s))))"
    "\<not> oom s (Suc (Suc (Suc (Suc (requests s)))))"
    using granted_nth [OF g, of 0] granted_nth [OF g, of 1] granted_nth [OF g, of 2]
      granted_nth [OF g, of 3] granted_nth [OF g, of 4]
    by (simp_all add: eval_nat_numeral)
  have r': "oom s (Suc (Suc (Suc (Suc (Suc (requests s))))))"
    using r by (simp add: eval_nat_numeral)
  have g3: "granted 3 s"
    using g by (rule granted_mono) simp
  have c: "error_get_type_combined Pycairo_Get_Error (Some (PyType PyExc_MemoryError)) ''MemoryError'' s
             = (Some (PyType (HeapType ''MemoryError'' PycairoError_Type PyExc_MemoryError)),
                s\<lparr>requests := Suc (Suc (Suc (requests s)))\<rparr>)"
    unfolding Pycairo_Get_Error_def by (rule error_get_type_combined_granted [OF g3])
  have e: "set_error f (Some (PyType (HeapType ''MemoryError'' PycairoError_Type PyExc_MemoryError)))
             CAIRO_STATUS_NO_MEMORY (s\<lparr>requests := Suc (Suc (Suc (requests s)))\<rparr>)
           = Some (PyErr_NoMemory (s\<lparr>requests := requests s + 6\<rparr>))"
    by (simp add: set_error_def CREATE_INT_ENUM_def Py_BuildValue_sO_def PyObject_Call_def
        type_call_def Py_DECREF_def allocate_def a r' eval_nat_numeral)
  show ?thesis
    using assms(1) by (simp add: Pycairo_Check_Status_def PyErr_Occurred_def c e Py_DECREF_def)
qed

text \<open>
  Claim C10. A failure of the type combiner or of the construction of the exception on
  the out-of-memory path reaches the caller of the translator as it is. The second does
  (\<open>no_memory_instance_refused\<close>). The first does not: whenever the combiner
  returns \<open>NULL\<close>, having raised its exception, the translator hands the \<open>NULL\<close> to
  \<open>set_error\<close> and \<open>Py_DECREF\<close> (lines 82 and 83), and the run is undefined.
\<close>

theorem Pycairo_Check_Status_combiner_null:
  assumes "curexc s = None"
    and "error_get_type_combined
           Pycairo_Get_Error (Some (PyType PyExc_MemoryError)) ''MemoryError'' s = (None, s1)"
  shows "curexc s1 \<noteq> None \<and> Pycairo_Check_Status f CAIRO_STATUS_NO_MEMORY s = None"
proof
  show "curexc s1 \<noteq> None"
    using assms(2) unfolding Pycairo_Get_Error_def
    by (rule error_get_type_combined_null_pending)
  show "Pycairo_Check_Status f CAIRO_STATUS_NO_MEMORY s = None"
    using assms by (simp add: Pycairo_Check_Status_def PyErr_Occurred_def set_error_null_type)
qed

theorem Pycairo_Check_Status_combiner_null_witness:
  "curexc \<lparr>curexc = None, requests = 0, oom = (\<lambda>n. n = 2)\<rparr> = None
   \<and> error_get_type_combined Pycairo_Get_Error (Some (PyType PyExc_MemoryError)) ''MemoryError''
        \<lparr>curexc = None, requests = 0, oom = (\<lambda>n. n = 2)\<rparr>
     = (None, \<lparr>curexc = Some (Plain \<lparr>ob_type = PyExc_MemoryError, args = []\<rparr>),
               requests = 3, oom = (\<lambda>n. n = 2)\<rparr>)
   \<and> Pycairo_Check_Status sample_text CAIRO_STATUS_NO_MEMORY
        \<lparr>curexc = None, requests = 0, oom = (\<lambda>n. n = 2)\<rparr> = None"
proof -
  have h: "curexc \<lparr>curexc = None, requests = 0, oom = (\<lambda>n. n = 2)\<rparr> = None"
    by simp
  have c: "error_get_type_combined Pycairo_Get_Error (Some (PyType PyExc_MemoryError)) ''MemoryError''
        \<lparr>curexc = None, requests = 0, oom = (\<lambda>n. n = 2)\<rparr>
     = (None, \<lparr>curexc = Some (Plain \<lparr>ob_type = PyExc_MemoryError, args = []\<rparr>),
               requests = 3, oom = (\<lambda>n. n = 2)\<rparr>)"
    by (simp add: error_get_type_combined_def Pycairo_Get_Error_def PyDict_New_def
        Py_BuildValue_s_OO_O_def PyType_Type_tp_new_def allocate_def PyErr_NoMemory_def)
  show ?thesis
    using h c Pycairo_Check_Status_combiner_null [OF h c, of sample_text] by simp
qed

end
